theory Spec2Isabelle
  imports Complex_Main "HOL-Library.Option_ord"
begin

section \<open>The similarity finder of \<open>functions.py\<close>\<close>

text \<open>
  This theory embeds \<open>find_most_similar_texts\<close> of \<open>src/functions.py\<close>. Text is a
  \<open>string\<close> whose characters stand for code points below 256. Embedding components are
  reals. In the first model of the function the similarity scores are exact reals as
  well; rounding, NaN and overflow of the doubles that NumPy computes with are the
  subject of the second model, which the claim about ties is settled on. The file system is a
  map from paths to contents: opening a path outside the map for reading raises
  \<open>FileNotFoundError\<close>, every path can be written, and the line separator of the
  platform is the line feed; other failures of input and output, and of decoding, are
  outside the model. The embedding provider
  (\<open>client_local.embeddings.create\<close> followed by the collection of
  \<open>data.embedding\<close>) is a parameter: a function from the batch of items to either the
  text of the exception it raises or the list of vectors it answers with. The world
  keeps, beside the files, the batches that have been sent to the provider, in order.
\<close>

subsection \<open>Exceptions, return value and the world\<close>

type_synonym path = string

datatype exn = FileNotFoundError | ValueError string | IndexError

record status =
  output_saved_to_location :: "path option"
  response :: string

type_synonym provider = "string list \<Rightarrow> string + real list list"

record world =
  files :: "path \<rightharpoonup> string"
  embed_calls :: "string list list"

subsection \<open>Reading the items\<close>

abbreviation LF :: char where "LF \<equiv> CHR 0x0A"
abbreviation CR :: char where "CR \<equiv> CHR 0x0D"

text \<open>Text mode with the default \<open>newline=None\<close>: \<open>\r\n\<close> and a lone \<open>\r\<close> are read as \<open>\n\<close>.\<close>

fun universal_newlines :: "string \<Rightarrow> string" where
  "universal_newlines [] = []"
| "universal_newlines [c] = (if c = CR then [LF] else [c])"
| "universal_newlines (c # d # ds) =
     (if c = CR \<and> d = LF then LF # universal_newlines ds
      else if c = CR then LF # universal_newlines (d # ds)
      else c # universal_newlines (d # ds))"

text \<open>\<open>for line in file\<close>: the lines in order, each with its terminating line feed, the
  last one without when the text does not end in one.\<close>

primrec file_lines :: "string \<Rightarrow> string list" where
  "file_lines [] = []"
| "file_lines (c # cs) =
     (if c = LF then [LF] # file_lines cs
      else (case file_lines cs of [] \<Rightarrow> [[c]] | l # ls \<Rightarrow> (c # l) # ls))"

text \<open>\<open>str.isspace\<close> on the code points below 256.\<close>

definition isspace :: "char \<Rightarrow> bool" where
  "isspace c =
     (let n = (of_char c :: nat)
      in (9 \<le> n \<and> n \<le> 13) \<or> (28 \<le> n \<and> n \<le> 32) \<or> n = 133 \<or> n = 160)"

definition strip :: "string \<Rightarrow> string" where
  "strip s = rev (dropWhile isspace (rev (dropWhile isspace s)))"

text \<open>\<open>[line.strip() for line in file if line.strip()]\<close>\<close>

definition load_items :: "string \<Rightarrow> string list" where
  "load_items content =
     map strip (filter (\<lambda>line. strip line \<noteq> []) (file_lines (universal_newlines content)))"

text \<open>\<open>items[:max_items]\<close>: a negative bound counts from the end of the list.\<close>

definition slice_to :: "'a list \<Rightarrow> int \<Rightarrow> 'a list" where
  "slice_to xs m = (if 0 \<le> m then take (nat m) xs else take (nat (int (length xs) + m)) xs)"

subsection \<open>Generating the embeddings\<close>

fun show_nat :: "nat \<Rightarrow> string" where
  "show_nat n =
     (if n < 10 then [char_of (48 + n)] else show_nat (n div 10) @ [char_of (48 + n mod 10)])"

text \<open>\<open>np.array\<close> on a list of lists of floats (NumPy 1.24 and later): the empty list
  gives the one-dimensional empty array, rows of one length give a two-dimensional array
  (both are the list itself here), and rows of different lengths raise \<open>ValueError\<close>.\<close>

definition np_array :: "real list list \<Rightarrow> string + real list list" where
  "np_array rows =
     (case rows of
        [] \<Rightarrow> Inr []
      | r # rs \<Rightarrow>
          (if list_all (\<lambda>r'. length r' = length r) rs then Inr rows
           else Inl (''setting an array element with a sequence. The requested array has an ''
                     @ ''inhomogeneous shape after 1 dimensions. The detected shape was (''
                     @ show_nat (length rows) @ '',) + inhomogeneous part.'')))"

text \<open>The \<open>try\<close> block: whatever is raised inside it is raised again as a \<open>ValueError\<close>
  that carries the text of the original exception.\<close>

definition generate_embeddings :: "provider \<Rightarrow> string list \<Rightarrow> exn + real list list" where
  "generate_embeddings embed_fn items =
     (case embed_fn items of
        Inl e \<Rightarrow> Inl (ValueError (''Error while generating embeddings: '' @ e))
      | Inr vectors \<Rightarrow>
          (case np_array vectors of
             Inl e \<Rightarrow> Inl (ValueError (''Error while generating embeddings: '' @ e))
           | Inr embeddings \<Rightarrow> Inr embeddings))"

subsection \<open>The similarity matrix and its maximum\<close>

text \<open>A cell of the masked matrix: \<open>None\<close> is \<open>-inf\<close>, below every \<open>Some x\<close> in the order
  on \<open>option\<close>.\<close>

type_synonym cell = "real option"

definition dot :: "real list \<Rightarrow> real list \<Rightarrow> real" where
  "dot u v = sum_list (map2 (*) u v)"

text \<open>\<open>np.dot(embeddings, embeddings.T)\<close>\<close>

definition similarity :: "real list list \<Rightarrow> real list list" where
  "similarity embeddings = map (\<lambda>u. map (\<lambda>v. dot u v) embeddings) embeddings"

text \<open>\<open>np.fill_diagonal(similarity, -np.inf)\<close>\<close>

definition fill_diagonal :: "real list list \<Rightarrow> cell list list" where
  "fill_diagonal M =
     map (\<lambda>(i, row). map (\<lambda>(j, x). if i = j then None else Some x) (enumerate 0 row))
       (enumerate 0 M)"

text \<open>\<open>np.argmax\<close> on the flattened array: the index of the first occurrence of the
  maximum; the empty array raises.\<close>

primrec argmax_scan :: "'a::linorder list \<Rightarrow> nat \<Rightarrow> nat \<Rightarrow> 'a \<Rightarrow> nat" where
  "argmax_scan [] k best v = best"
| "argmax_scan (x # xs) k best v =
     (if v < x then argmax_scan xs (Suc k) k x else argmax_scan xs (Suc k) best v)"

fun argmax :: "'a::linorder list \<Rightarrow> nat option" where
  "argmax [] = None"
| "argmax (x # xs) = Some (argmax_scan xs 1 0 x)"

text \<open>\<open>np.unravel_index\<close> for a square shape \<open>(n, n)\<close>\<close>

definition unravel_index :: "nat \<Rightarrow> nat \<Rightarrow> nat \<times> nat" where
  "unravel_index k n = (k div n, k mod n)"

text \<open>The masked matrix. With no vector at all the array is one-dimensional, its product
  with itself is a scalar, and \<open>np.fill_diagonal\<close> raises.\<close>

definition masked_similarity :: "real list list \<Rightarrow> exn + cell list list" where
  "masked_similarity embeddings =
     (if embeddings = [] then Inl (ValueError ''array must be at least 2-d'')
      else Inr (fill_diagonal (similarity embeddings)))"

text \<open>The indices \<open>i, j\<close> of the maximum.\<close>

definition argmax_cell :: "real list list \<Rightarrow> exn + nat \<times> nat" where
  "argmax_cell embeddings =
     (case masked_similarity embeddings of
        Inl e \<Rightarrow> Inl e
      | Inr M \<Rightarrow>
          (case argmax (concat M) of
             None \<Rightarrow> Inl (ValueError ''attempt to get an argmax of an empty sequence'')
           | Some k \<Rightarrow> Inr (unravel_index k (length M))))"

text \<open>\<open>most_similar_pair = (items[i], items[j])\<close>, for indices that are never negative.\<close>

definition select_pair :: "string list \<Rightarrow> real list list \<Rightarrow> exn + string \<times> string" where
  "select_pair items embeddings =
     (case argmax_cell embeddings of
        Inl e \<Rightarrow> Inl e
      | Inr (i, j) \<Rightarrow>
          (if i < length items \<and> j < length items then Inr (items ! i, items ! j)
           else Inl IndexError))"

subsection \<open>The function\<close>

text \<open>The body up to the assignment of \<open>most_similar_pair\<close>: the value of that local
  variable, or the exception raised before it is assigned, and the world at that point.\<close>

definition most_similar_pair ::
  "provider \<Rightarrow> path \<Rightarrow> int \<Rightarrow> world \<Rightarrow> (exn + string \<times> string) \<times> world" where
  "most_similar_pair embed_fn input_file max_items w =
     (case files w input_file of
        None \<Rightarrow> (Inl FileNotFoundError, w)
      | Some content \<Rightarrow>
          (let items = load_items content
           in if length items < 2
              then (Inl (ValueError ''The input file must contain at least two items to compare.''), w)
              else
                (let items = slice_to items max_items;
                     w = w\<lparr>embed_calls := embed_calls w @ [items]\<rparr>
                 in (case generate_embeddings embed_fn items of
                       Inl e \<Rightarrow> (Inl e, w)
                     | Inr embeddings \<Rightarrow> (select_pair items embeddings, w)))))"

text \<open>The rest: the pair is written when \<open>output_file\<close> is neither \<open>None\<close> nor the empty
  string, and the returned value is the one-element list of the status dictionary.\<close>

definition find_most_similar_texts ::
  "provider \<Rightarrow> path \<Rightarrow> int \<Rightarrow> path option \<Rightarrow> world \<Rightarrow> (exn + status list) \<times> world" where
  "find_most_similar_texts embed_fn input_file max_items output_file w =
     (case most_similar_pair embed_fn input_file max_items w of
        (Inl e, w) \<Rightarrow> (Inl e, w)
      | (Inr (a, b), w) \<Rightarrow>
          (let w = (case output_file of
                      None \<Rightarrow> w
                    | Some p \<Rightarrow>
                        (if p = [] then w
                         else w\<lparr>files := (files w)(p \<mapsto> (a @ [LF]) @ (b @ [LF]))\<rparr>))
           in (Inr [\<lparr>output_saved_to_location = output_file,
                     response = ''Task Done Successfully.''\<rparr>], w)))"

subsection \<open>The function with the products in doubles\<close>

text \<open>
  Which cell holds the maximum depends on the values that \<open>np.dot\<close> computes, and these
  are IEEE 754 doubles: a product can overflow to an infinity, a sum of infinities of
  both signs is NaN, and rounding can make two cells equal. For what is said about the
  selection of the cell, the function is therefore modelled a second time, with the
  cells as doubles. A double is \<open>-inf\<close>, a finite value, \<open>+inf\<close> or NaN.
\<close>

datatype double = NegInf | Finite real | PosInf | NaN

text \<open>The order in which \<open>np.argmax\<close> compares doubles: it replaces the maximum seen so
  far by a later element only if that element is not below or equal to it, and it stops
  at the first NaN. So NaN is taken for the greatest value, above \<open>+inf\<close>; the other
  values are in their usual order.\<close>

fun level :: "double \<Rightarrow> nat" where
  "level NegInf = 0"
| "level (Finite x) = 1"
| "level PosInf = 2"
| "level NaN = 3"

fun finite_part :: "double \<Rightarrow> real" where
  "finite_part (Finite x) = x"
| "finite_part d = 0"

instantiation double :: linorder
begin

definition less_eq_double :: "double \<Rightarrow> double \<Rightarrow> bool" where
  "less_eq_double a b \<longleftrightarrow>
     level a < level b \<or> (level a = level b \<and> finite_part a \<le> finite_part b)"

definition less_double :: "double \<Rightarrow> double \<Rightarrow> bool" where
  "less_double a b \<longleftrightarrow>
     level a < level b \<or> (level a = level b \<and> finite_part a < finite_part b)"

instance
proof
  fix a b c :: double
  show "a < b \<longleftrightarrow> a \<le> b \<and> \<not> b \<le> a"
    by (auto simp: less_eq_double_def less_double_def)
  show "a \<le> a" by (simp add: less_eq_double_def)
  show "a \<le> b \<Longrightarrow> b \<le> c \<Longrightarrow> a \<le> c"
    by (auto simp: less_eq_double_def)
  show "a \<le> b \<Longrightarrow> b \<le> a \<Longrightarrow> a = b"
    by (cases a; cases b) (auto simp: less_eq_double_def)
  show "a \<le> b \<or> b \<le> a"
    by (auto simp: less_eq_double_def)
qed

end







text \<open>The source does not fix the order in which NumPy and the BLAS behind it sum the
  products of a cell, so the function that computes cell \<open>(i, j)\<close> of
  \<open>np.dot(embeddings, embeddings.T)\<close> is a parameter \<open>np_dot\<close> of the model, of which
  nothing is assumed. One such function sums from left to right; for vectors of one
  component, where a cell is a single rounded product, every order gives its value.\<close>

type_synonym product = "real list list \<Rightarrow> nat \<Rightarrow> nat \<Rightarrow> double"


text \<open>\<open>np.dot(embeddings, embeddings.T)\<close>, \<open>np.fill_diagonal(similarity, -np.inf)\<close>, the
  indices of the maximum, the pair and the function, as above but on doubles.\<close>

definition similarity_fp :: "product \<Rightarrow> real list list \<Rightarrow> double list list" where
  "similarity_fp np_dot embeddings =
     map (\<lambda>i. map (\<lambda>j. np_dot embeddings i j) [0..<length embeddings])
       [0..<length embeddings]"

definition fill_diagonal_fp :: "double list list \<Rightarrow> double list list" where
  "fill_diagonal_fp M =
     map (\<lambda>(i, row). map (\<lambda>(j, x). if i = j then NegInf else x) (enumerate 0 row))
       (enumerate 0 M)"

definition masked_similarity_fp :: "product \<Rightarrow> real list list \<Rightarrow> exn + double list list" where
  "masked_similarity_fp np_dot embeddings =
     (if embeddings = [] then Inl (ValueError ''array must be at least 2-d'')
      else Inr (fill_diagonal_fp (similarity_fp np_dot embeddings)))"

definition argmax_cell_fp :: "product \<Rightarrow> real list list \<Rightarrow> exn + nat \<times> nat" where
  "argmax_cell_fp np_dot embeddings =
     (case masked_similarity_fp np_dot embeddings of
        Inl e \<Rightarrow> Inl e
      | Inr M \<Rightarrow>
          (case argmax (concat M) of
             None \<Rightarrow> Inl (ValueError ''attempt to get an argmax of an empty sequence'')
           | Some k \<Rightarrow> Inr (unravel_index k (length M))))"

definition select_pair_fp ::
  "product \<Rightarrow> string list \<Rightarrow> real list list \<Rightarrow> exn + string \<times> string" where
  "select_pair_fp np_dot items embeddings =
     (case argmax_cell_fp np_dot embeddings of
        Inl e \<Rightarrow> Inl e
      | Inr (i, j) \<Rightarrow>
          (if i < length items \<and> j < length items then Inr (items ! i, items ! j)
           else Inl IndexError))"

definition most_similar_pair_fp ::
  "product \<Rightarrow> provider \<Rightarrow> path \<Rightarrow> int \<Rightarrow> world \<Rightarrow> (exn + string \<times> string) \<times> world" where
  "most_similar_pair_fp np_dot embed_fn input_file max_items w =
     (case files w input_file of
        None \<Rightarrow> (Inl FileNotFoundError, w)
      | Some content \<Rightarrow>
          (let items = load_items content
           in if length items < 2
              then (Inl (ValueError ''The input file must contain at least two items to compare.''), w)
              else
                (let items = slice_to items max_items;
                     w = w\<lparr>embed_calls := embed_calls w @ [items]\<rparr>
                 in (case generate_embeddings embed_fn items of
                       Inl e \<Rightarrow> (Inl e, w)
                     | Inr embeddings \<Rightarrow> (select_pair_fp np_dot items embeddings, w)))))"

definition find_most_similar_texts_fp ::
  "product \<Rightarrow> provider \<Rightarrow> path \<Rightarrow> int \<Rightarrow> path option \<Rightarrow> world
     \<Rightarrow> (exn + status list) \<times> world" where
  "find_most_similar_texts_fp np_dot embed_fn input_file max_items output_file w =
     (case most_similar_pair_fp np_dot embed_fn input_file max_items w of
        (Inl e, w) \<Rightarrow> (Inl e, w)
      | (Inr (a, b), w) \<Rightarrow>
          (let w = (case output_file of
                      None \<Rightarrow> w
                    | Some p \<Rightarrow>
                        (if p = [] then w
                         else w\<lparr>files := (files w)(p \<mapsto> (a @ [LF]) @ (b @ [LF]))\<rparr>))
           in (Inr [\<lparr>output_saved_to_location = output_file,
                     response = ''Task Done Successfully.''\<rparr>], w)))"

text \<open>The first model is the second one with exact products in place of rounded ones:
  a cell \<open>None\<close> of the first is \<open>-inf\<close>, a cell \<open>Some x\<close> is the finite value \<open>x\<close>.\<close>

definition exact_product :: product where
  "exact_product embeddings i j = Finite (dot (embeddings ! i) (embeddings ! j))"

fun double_of_cell :: "cell \<Rightarrow> double" where
  "double_of_cell None = NegInf"
| "double_of_cell (Some x) = Finite x"

subsection \<open>Example inputs\<close>

text \<open>A world whose only file is \<open>in.txt\<close>, before any call to the provider.\<close>

definition world_of :: "string \<Rightarrow> world" where
  "world_of content = \<lparr>files = [''in.txt'' \<mapsto> content], embed_calls = []\<rparr>"

definition one_item :: string where
  "one_item = ''only one'' @ [LF] @ ''   '' @ [LF]"

definition two_items :: string where
  "two_items = ''a'' @ [LF] @ ''b'' @ [LF]"

text \<open>A provider that answers every item with the vector \<open>[1]\<close>, and one that always
  raises.\<close>

definition ones_provider :: provider where
  "ones_provider items = Inr (map (\<lambda>x. [1]) items)"

definition failing_provider :: provider where
  "failing_provider items = Inl ''quota''"


text \<open>Four items and a provider that looks the vector of an item up; the last two
  items have the largest product.\<close>

definition four_items :: string where
  "four_items = ''a'' @ [LF] @ ''b'' @ [LF] @ ''c'' @ [LF] @ ''d'' @ [LF]"

definition vector_for :: "string \<Rightarrow> real list" where
  "vector_for item = (if item = ''a'' then [1, 0] else if item = ''b'' then [0, 1] else [5, 5])"

definition lookup_provider :: provider where
  "lookup_provider items = Inr (map vector_for items)"

text \<open>The example of three items whose first two vectors are equal.\<close>

definition xyz_items :: string where
  "xyz_items = ''x'' @ [LF] @ ''y'' @ [LF] @ ''z'' @ [LF]"

definition xyz_provider :: provider where
  "xyz_provider items = Inr [[1, 0], [1, 0], [0, 1]]"

text \<open>Lines with surrounding white space, a line of white space only, a carriage
  return before a line feed, and no line feed at the end.\<close>

definition padded_items :: string where
  "padded_items = ''  a '' @ [LF] @ [CHR 0x09] @ [CHR 0x0D, LF] @ '' b'' @ [CHR 0x09]"







section \<open>Properties\<close>

subsection \<open>The example inputs\<close>

lemma files_world_of: "files (world_of content) ''in.txt'' = Some content"
  by (simp add: world_of_def)

lemma embed_calls_world_of: "embed_calls (world_of content) = []"
  by (simp add: world_of_def)

lemma load_items_one_item: "load_items one_item = [''only one'']"
  by (simp add: one_item_def load_items_def strip_def isspace_def)

lemma load_items_two_items: "load_items two_items = [''a'', ''b'']"
  by (simp add: two_items_def load_items_def strip_def isspace_def)

lemma load_items_four_items: "load_items four_items = [''a'', ''b'', ''c'', ''d'']"
  by (simp add: four_items_def load_items_def strip_def isspace_def)

lemma load_items_xyz_items: "load_items xyz_items = [''x'', ''y'', ''z'']"
  by (simp add: xyz_items_def load_items_def strip_def isspace_def)

lemma load_items_padded_items: "load_items padded_items = [''a'', ''b'']"
  by (simp add: padded_items_def load_items_def strip_def isspace_def)

lemma file_lines_padded_items:
  "file_lines (universal_newlines padded_items) = [''  a '' @ [LF], [CHR 0x09, LF], '' b'' @ [CHR 0x09]]"
  by (simp add: padded_items_def)

lemma two_items_enough: "2 \<le> length (load_items two_items)"
  by (simp add: load_items_two_items)

subsection \<open>The ways through the body\<close>

lemma most_similar_pair_too_few:
  assumes "files w input_file = Some content" and "length (load_items content) < 2"
  shows "most_similar_pair embed_fn input_file max_items w =
           (Inl (ValueError ''The input file must contain at least two items to compare.''), w)"
  using assms by (simp add: most_similar_pair_def)

lemma most_similar_pair_enough:
  assumes "files w input_file = Some content" and "2 \<le> length (load_items content)"
  shows "most_similar_pair embed_fn input_file max_items w =
           (case generate_embeddings embed_fn (slice_to (load_items content) max_items) of
              Inl e \<Rightarrow> Inl e
            | Inr embeddings \<Rightarrow> select_pair (slice_to (load_items content) max_items) embeddings,
            w\<lparr>embed_calls := embed_calls w @ [slice_to (load_items content) max_items]\<rparr>)"
  using assms by (simp add: most_similar_pair_def Let_def split: sum.splits)

lemma find_most_similar_texts_calls:
  "embed_calls (snd (find_most_similar_texts embed_fn input_file max_items output_file w)) =
   embed_calls (snd (most_similar_pair embed_fn input_file max_items w))"
  by (simp add: find_most_similar_texts_def split: prod.splits sum.splits option.splits)

lemma find_most_similar_texts_error:
  "fst (find_most_similar_texts embed_fn input_file max_items output_file w) = Inl e \<longleftrightarrow>
   fst (most_similar_pair embed_fn input_file max_items w) = Inl e"
  by (simp add: find_most_similar_texts_def Let_def split: prod.splits sum.splits option.splits)

lemma select_pair_error:
  assumes "select_pair items embeddings = Inl e"
  shows "e = ValueError ''array must be at least 2-d''
       \<or> e = ValueError ''attempt to get an argmax of an empty sequence''
       \<or> e = IndexError"
  using assms
  by (auto simp: select_pair_def argmax_cell_def masked_similarity_def
           split: sum.splits option.splits if_splits prod.splits)

lemma slice_to_one: "xs \<noteq> [] \<Longrightarrow> slice_to xs 1 = [hd xs]"
  by (cases xs) (simp_all add: slice_to_def)

lemma slice_to_nonneg: "0 \<le> m \<Longrightarrow> slice_to xs m = take (nat m) xs"
  by (simp add: slice_to_def)

lemma slice_to_prefix: "\<exists>n. slice_to xs m = take n xs"
  by (auto simp: slice_to_def)

lemma set_slice_to: "set (slice_to xs m) \<subseteq> set xs"
  using slice_to_prefix [of xs m] by (auto dest: in_set_takeD)

lemma select_pair_Inr:
  assumes "select_pair items E = Inr (a, b)"
  shows "\<exists>i j. argmax_cell E = Inr (i, j) \<and> i < length items \<and> j < length items
           \<and> a = items ! i \<and> b = items ! j"
  using assms
  by (auto simp: select_pair_def split: sum.splits prod.splits if_splits)

lemma most_similar_pair_Inr:
  assumes "files w input_file = Some content"
    and "fst (most_similar_pair embed_fn input_file max_items w) = Inr (a, b)"
  shows "2 \<le> length (load_items content)"
    and "\<exists>E. generate_embeddings embed_fn (slice_to (load_items content) max_items) = Inr E
           \<and> select_pair (slice_to (load_items content) max_items) E = Inr (a, b)"
proof -
  show n: "2 \<le> length (load_items content)"
  proof (rule ccontr)
    assume "\<not> 2 \<le> length (load_items content)"
    then have "length (load_items content) < 2" by simp
    from most_similar_pair_too_few [OF assms(1) this] assms(2) show False by simp
  qed
  from assms(2) show "\<exists>E. generate_embeddings embed_fn (slice_to (load_items content) max_items) = Inr E
           \<and> select_pair (slice_to (load_items content) max_items) E = Inr (a, b)"
    by (simp add: most_similar_pair_enough [OF assms(1) n] split: sum.splits)
qed

lemma most_similar_pair_calls:
  assumes "files w input_file = Some content"
  shows "embed_calls (snd (most_similar_pair embed_fn input_file max_items w)) =
           embed_calls w @ (if length (load_items content) < 2 then []
                            else [slice_to (load_items content) max_items])"
proof (cases "length (load_items content) < 2")
  case True
  with assms show ?thesis by (simp add: most_similar_pair_too_few)
next
  case False
  then have "2 \<le> length (load_items content)" by simp
  from most_similar_pair_enough [OF assms this] False show ?thesis by simp
qed

lemma find_most_similar_texts_Inr:
  assumes "fst (find_most_similar_texts embed_fn input_file max_items output_file w) = Inr r"
  shows "\<exists>a b. fst (most_similar_pair embed_fn input_file max_items w) = Inr (a, b)
           \<and> r = [\<lparr>output_saved_to_location = output_file, response = ''Task Done Successfully.''\<rparr>]
           \<and> (\<forall>p. output_file = Some p \<and> p \<noteq> [] \<longrightarrow>
                 files (snd (find_most_similar_texts embed_fn input_file max_items output_file w)) p
                   = Some (a @ [LF] @ b @ [LF]))"
  using assms
  by (auto simp: find_most_similar_texts_def Let_def split: prod.splits sum.splits option.splits)

lemma most_similar_pair_items:
  assumes "files w input_file = Some content"
    and "fst (most_similar_pair embed_fn input_file max_items w) = Inr (a, b)"
  shows "\<exists>i j. i < length (slice_to (load_items content) max_items)
             \<and> j < length (slice_to (load_items content) max_items)
             \<and> a = load_items content ! i \<and> b = load_items content ! j"
proof -
  let ?items = "slice_to (load_items content) max_items"
  from most_similar_pair_Inr(2) [OF assms] obtain E where "select_pair ?items E = Inr (a, b)"
    by blast
  from select_pair_Inr [OF this] obtain i j where ij: "i < length ?items" "j < length ?items"
    and ab: "a = ?items ! i" "b = ?items ! j" by blast
  obtain n where n: "?items = take n (load_items content)"
    using slice_to_prefix by blast
  from ij have "?items ! i = load_items content ! i" and "?items ! j = load_items content ! j"
    unfolding n by simp_all
  with ij ab show ?thesis by auto
qed

lemma most_similar_pair_reads_input_only:
  assumes "files w1 input_file = files w2 input_file"
  shows "fst (most_similar_pair embed_fn input_file max_items w1) =
         fst (most_similar_pair embed_fn input_file max_items w2)"
  using assms
  by (simp add: most_similar_pair_def Let_def split: option.splits sum.splits)

lemma find_most_similar_texts_fst:
  "fst (find_most_similar_texts embed_fn input_file max_items output_file w) =
     (case fst (most_similar_pair embed_fn input_file max_items w) of
        Inl e \<Rightarrow> Inl e
      | Inr ab \<Rightarrow> Inr [\<lparr>output_saved_to_location = output_file,
                          response = ''Task Done Successfully.''\<rparr>])"
  by (simp add: find_most_similar_texts_def Let_def split: prod.splits sum.splits)

subsection \<open>Reading and stripping\<close>

lemma strip_no_space_ends:
  assumes "strip s \<noteq> []"
  shows "\<not> isspace (hd (strip s))" and "\<not> isspace (last (strip s))"
proof -
  let ?t = "dropWhile isspace s"
  let ?u = "dropWhile isspace (rev ?t)"
  from assms have u: "?u \<noteq> []" by (simp add: strip_def)
  have t: "?t \<noteq> []"
  proof
    assume a: "?t = []"
    have "?u = []" by (simp only: a rev.simps dropWhile.simps)
    with u show False by contradiction
  qed
  have "rev ?t = takeWhile isspace (rev ?t) @ ?u" by simp
  with u have "last (rev ?t) = last ?u" by (metis last_appendR)
  with t have "last ?u = hd ?t" by (simp add: last_rev)
  moreover from t have "\<not> isspace (hd ?t)" by (rule hd_dropWhile)
  ultimately show "\<not> isspace (hd (strip s))" using u by (simp add: strip_def hd_rev)
  from u have "\<not> isspace (hd ?u)" by (rule hd_dropWhile)
  with u show "\<not> isspace (last (strip s))" by (simp add: strip_def last_rev)
qed

lemma load_items_filter_map:
  "load_items content =
     filter (\<lambda>x. x \<noteq> []) (map strip (file_lines (universal_newlines content)))"
  by (simp add: load_items_def filter_map comp_def)

lemma load_items_stripped:
  assumes "x \<in> set (load_items content)"
  shows "x \<noteq> []" and "\<not> isspace (hd x)" and "\<not> isspace (last x)"
    and "\<exists>line \<in> set (file_lines (universal_newlines content)). x = strip line"
proof -
  from assms obtain line where l: "line \<in> set (file_lines (universal_newlines content))"
    and ne: "strip line \<noteq> []" and x: "x = strip line"
    by (auto simp: load_items_def)
  from ne x show "x \<noteq> []" by simp
  from strip_no_space_ends [OF ne] x show "\<not> isspace (hd x)" and "\<not> isspace (last x)"
    by simp_all
  from l x show "\<exists>line \<in> set (file_lines (universal_newlines content)). x = strip line"
    by blast
qed

subsection \<open>The matrix\<close>


lemma length_similarity: "length (similarity E) = length E"
  by (simp add: similarity_def)

lemma length_similarity_row: "i < length E \<Longrightarrow> length (similarity E ! i) = length E"
  by (simp add: similarity_def)

lemma similarity_nth:
  "i < length E \<Longrightarrow> j < length E \<Longrightarrow> similarity E ! i ! j = dot (E ! i) (E ! j)"
  by (simp add: similarity_def)

lemma length_fill_diagonal: "length (fill_diagonal M) = length M"
  by (simp add: fill_diagonal_def)

lemma length_fill_diagonal_row:
  "i < length M \<Longrightarrow> length (fill_diagonal M ! i) = length (M ! i)"
  by (simp add: fill_diagonal_def nth_enumerate_eq)

lemma fill_diagonal_nth:
  "i < length M \<Longrightarrow> j < length (M ! i) \<Longrightarrow>
   fill_diagonal M ! i ! j = (if i = j then None else Some (M ! i ! j))"
  by (simp add: fill_diagonal_def nth_enumerate_eq)

subsection \<open>The scan for the maximum\<close>




subsection \<open>Row-major positions\<close>






subsection \<open>The matrix in doubles\<close>

lemma length_similarity_fp: "length (similarity_fp np_dot E) = length E"
  by (simp add: similarity_fp_def)

lemma similarity_fp_nth:
  "i < length E \<Longrightarrow> similarity_fp np_dot E ! i = map (\<lambda>j. np_dot E i j) [0..<length E]"
  by (simp add: similarity_fp_def)

lemma length_fill_diagonal_fp: "length (fill_diagonal_fp M) = length M"
  by (simp add: fill_diagonal_fp_def)

lemma length_fill_diagonal_fp_row:
  "i < length M \<Longrightarrow> length (fill_diagonal_fp M ! i) = length (M ! i)"
  by (simp add: fill_diagonal_fp_def nth_enumerate_eq)

lemma fill_diagonal_fp_nth:
  "i < length M \<Longrightarrow> j < length (M ! i) \<Longrightarrow>
   fill_diagonal_fp M ! i ! j = (if i = j then NegInf else M ! i ! j)"
  by (simp add: fill_diagonal_fp_def nth_enumerate_eq)




subsection \<open>The two models\<close>

lemma double_of_cell_less: "double_of_cell a < double_of_cell b \<longleftrightarrow> a < b"
  by (cases a; cases b) (simp_all add: less_double_def)

lemma argmax_scan_double_of_cell:
  "argmax_scan (map double_of_cell xs) k best (double_of_cell v) = argmax_scan xs k best v"
  by (induction xs arbitrary: k best v) (simp_all add: double_of_cell_less)

lemma argmax_double_of_cell: "argmax (map double_of_cell xs) = argmax xs"
  by (cases xs) (simp_all add: argmax_scan_double_of_cell)

lemma fill_diagonal_fp_exact:
  "fill_diagonal_fp (similarity_fp exact_product E)
     = map (map double_of_cell) (fill_diagonal (similarity E))"
proof (rule nth_equalityI)
  show "length (fill_diagonal_fp (similarity_fp exact_product E))
      = length (map (map double_of_cell) (fill_diagonal (similarity E)))"
    by (simp add: length_fill_diagonal_fp length_similarity_fp length_fill_diagonal
          length_similarity)
next
  fix i assume "i < length (fill_diagonal_fp (similarity_fp exact_product E))"
  then have i: "i < length E" by (simp add: length_fill_diagonal_fp length_similarity_fp)
  show "fill_diagonal_fp (similarity_fp exact_product E) ! i
      = map (map double_of_cell) (fill_diagonal (similarity E)) ! i"
  proof (rule nth_equalityI)
    show "length (fill_diagonal_fp (similarity_fp exact_product E) ! i)
        = length (map (map double_of_cell) (fill_diagonal (similarity E)) ! i)"
      using i
      by (simp add: length_fill_diagonal_fp_row length_similarity_fp similarity_fp_nth
            length_fill_diagonal length_fill_diagonal_row length_similarity
            length_similarity_row)
  next
    fix j assume "j < length (fill_diagonal_fp (similarity_fp exact_product E) ! i)"
    with i have j: "j < length E"
      by (simp add: length_fill_diagonal_fp_row length_similarity_fp similarity_fp_nth)
    from i j show "fill_diagonal_fp (similarity_fp exact_product E) ! i ! j
        = map (map double_of_cell) (fill_diagonal (similarity E)) ! i ! j"
      by (simp add: fill_diagonal_fp_nth length_similarity_fp similarity_fp_nth
            fill_diagonal_nth length_fill_diagonal length_fill_diagonal_row length_similarity
            length_similarity_row similarity_nth exact_product_def)
  qed
qed

lemma argmax_cell_fp_exact: "argmax_cell_fp exact_product E = argmax_cell E"
  by (simp add: argmax_cell_fp_def argmax_cell_def masked_similarity_fp_def
        masked_similarity_def fill_diagonal_fp_exact map_concat [symmetric]
        argmax_double_of_cell split: option.splits)

lemma select_pair_fp_exact: "select_pair_fp exact_product items E = select_pair items E"
  by (simp add: select_pair_fp_def select_pair_def argmax_cell_fp_exact)

lemma most_similar_pair_fp_exact:
  "most_similar_pair_fp exact_product embed_fn input_file max_items w
     = most_similar_pair embed_fn input_file max_items w"
  by (simp add: most_similar_pair_fp_def most_similar_pair_def select_pair_fp_exact Let_def
        split: option.splits sum.splits)

lemma find_most_similar_texts_fp_exact:
  "find_most_similar_texts_fp exact_product embed_fn input_file max_items output_file w
     = find_most_similar_texts embed_fn input_file max_items output_file w"
  by (simp add: find_most_similar_texts_fp_def find_most_similar_texts_def
        most_similar_pair_fp_exact)

subsection \<open>Evaluations\<close>

lemma argmax_cell_two_ones: "argmax_cell [[1], [1]] = Inr (0, 1)"
  by (simp add: argmax_cell_def masked_similarity_def fill_diagonal_def similarity_def
        dot_def enumerate_eq_zip unravel_index_def)

lemma argmax_cell_one: "argmax_cell [[1]] = Inr (0, 0)"
  by (simp add: argmax_cell_def masked_similarity_def fill_diagonal_def similarity_def
        dot_def enumerate_eq_zip unravel_index_def)

lemma most_similar_pair_two_items:
  "most_similar_pair ones_provider ''in.txt'' 1000 (world_of two_items)
     = (Inr (''a'', ''b''), (world_of two_items)\<lparr>embed_calls := [[''a'', ''b'']]\<rparr>)"
proof -
  have s: "slice_to (load_items two_items) 1000 = [''a'', ''b'']"
    by (simp add: load_items_two_items slice_to_def)
  have g: "generate_embeddings ones_provider [''a'', ''b''] = Inr [[1], [1]]"
    by (simp add: generate_embeddings_def np_array_def ones_provider_def)
  have sp: "select_pair [''a'', ''b''] [[1], [1]] = Inr (''a'', ''b'')"
    by (simp add: select_pair_def argmax_cell_two_ones)
  show ?thesis
    by (simp add: most_similar_pair_enough [OF files_world_of two_items_enough] s g sp
          embed_calls_world_of)
qed

lemma most_similar_pair_two_items_cap_one:
  "most_similar_pair ones_provider ''in.txt'' 1 (world_of two_items)
     = (Inr (''a'', ''a''), (world_of two_items)\<lparr>embed_calls := [[''a'']]\<rparr>)"
proof -
  have s: "slice_to (load_items two_items) 1 = [''a'']"
    by (simp add: load_items_two_items slice_to_def)
  have g: "generate_embeddings ones_provider [''a''] = Inr [[1]]"
    by (simp add: generate_embeddings_def np_array_def ones_provider_def)
  have sp: "select_pair [''a''] [[1]] = Inr (''a'', ''a'')"
    by (simp add: select_pair_def argmax_cell_one)
  show ?thesis
    by (simp add: most_similar_pair_enough [OF files_world_of two_items_enough] s g sp
          embed_calls_world_of)
qed

lemma most_similar_pair_four_items_cap_two:
  "most_similar_pair lookup_provider ''in.txt'' 2 (world_of four_items)
     = (Inr (''a'', ''b''), (world_of four_items)\<lparr>embed_calls := [[''a'', ''b'']]\<rparr>)"
proof -
  have n: "2 \<le> length (load_items four_items)" by (simp add: load_items_four_items)
  have s: "slice_to (load_items four_items) 2 = [''a'', ''b'']"
    by (simp add: load_items_four_items slice_to_def)
  have g: "generate_embeddings lookup_provider [''a'', ''b''] = Inr [[1, 0], [0, 1]]"
    by (simp add: generate_embeddings_def np_array_def lookup_provider_def vector_for_def)
  have c: "argmax_cell [[1, 0], [0, 1]] = Inr (0, 1)"
    by (simp add: argmax_cell_def masked_similarity_def fill_diagonal_def similarity_def
          dot_def enumerate_eq_zip unravel_index_def)
  have sp: "select_pair [''a'', ''b''] [[1, 0], [0, 1]] = Inr (''a'', ''b'')"
    by (simp add: select_pair_def c)
  show ?thesis
    by (simp add: most_similar_pair_enough [OF files_world_of n] s g sp embed_calls_world_of)
qed

lemma most_similar_pair_four_items_no_cap:
  "fst (most_similar_pair lookup_provider ''in.txt'' 1000 (world_of four_items))
     = Inr (''c'', ''d'')"
proof -
  have n: "2 \<le> length (load_items four_items)" by (simp add: load_items_four_items)
  have s: "slice_to (load_items four_items) 1000 = [''a'', ''b'', ''c'', ''d'']"
    by (simp add: load_items_four_items slice_to_def)
  have g: "generate_embeddings lookup_provider [''a'', ''b'', ''c'', ''d'']
             = Inr [[1, 0], [0, 1], [5, 5], [5, 5]]"
    by (simp add: generate_embeddings_def np_array_def lookup_provider_def vector_for_def)
  have c: "argmax_cell [[1, 0], [0, 1], [5, 5], [5, 5]] = Inr (2, 3)"
    by (simp add: argmax_cell_def masked_similarity_def fill_diagonal_def similarity_def
          dot_def enumerate_eq_zip unravel_index_def)
  have sp: "select_pair [''a'', ''b'', ''c'', ''d''] [[1, 0], [0, 1], [5, 5], [5, 5]]
              = Inr (''c'', ''d'')"
    by (simp add: select_pair_def c)
  show ?thesis
    by (simp add: most_similar_pair_enough [OF files_world_of n] s g sp)
qed

lemma masked_similarity_xyz:
  "masked_similarity [[1, 0], [1, 0], [0, 1]]
     = Inr [[None, Some 1, Some 0], [Some 1, None, Some 0], [Some 0, Some 0, None]]"
  by (simp add: masked_similarity_def fill_diagonal_def similarity_def dot_def enumerate_eq_zip)

lemma argmax_cell_xyz: "argmax_cell [[1, 0], [1, 0], [0, 1]] = Inr (0, 1)"
  by (simp add: argmax_cell_def masked_similarity_xyz unravel_index_def)

lemma most_similar_pair_padded_items:
  "most_similar_pair ones_provider ''in.txt'' 1000 (world_of padded_items)
     = (Inr (''a'', ''b''), (world_of padded_items)\<lparr>embed_calls := [[''a'', ''b'']]\<rparr>)"
proof -
  have n: "2 \<le> length (load_items padded_items)" by (simp add: load_items_padded_items)
  have s: "slice_to (load_items padded_items) 1000 = [''a'', ''b'']"
    by (simp add: load_items_padded_items slice_to_def)
  have g: "generate_embeddings ones_provider [''a'', ''b''] = Inr [[1], [1]]"
    by (simp add: generate_embeddings_def np_array_def ones_provider_def)
  have sp: "select_pair [''a'', ''b''] [[1], [1]] = Inr (''a'', ''b'')"
    by (simp add: select_pair_def argmax_cell_two_ones)
  show ?thesis
    by (simp add: most_similar_pair_enough [OF files_world_of n] s g sp embed_calls_world_of)
qed

subsection \<open>Evaluations in doubles\<close>













section \<open>The claims\<close>

subsection \<open>What the caller receives\<close>

text \<open>
  Claim C1. The pair of the items at the row and the column of the maximum is computed,
  but it is not what the caller receives: for the file of the two lines \<open>a\<close> and \<open>b\<close>
  and no output file, the pair is \<open>(a, b)\<close> and the returned value is the one-element
  list holding the status dictionary.
\<close>

theorem returned_value_is_status_not_pair:
  "fst (most_similar_pair ones_provider ''in.txt'' 1000 (world_of two_items)) = Inr (''a'', ''b'')
   \<and> fst (find_most_similar_texts ones_provider ''in.txt'' 1000 None (world_of two_items))
     = Inr [\<lparr>output_saved_to_location = None, response = ''Task Done Successfully.''\<rparr>]"
  by (simp add: find_most_similar_texts_def most_similar_pair_two_items)

subsection \<open>A cap of one item\<close>

text \<open>
  Claim C2. The two indices are not always distinct: for the file of the two lines \<open>a\<close>
  and \<open>b\<close> and \<open>max_items = 1\<close>, one item is embedded, the masked matrix is the single
  cell \<open>-inf\<close>, the maximum sits at cell \<open>(0, 0)\<close>, and the pair \<open>(a, a)\<close> is written.
\<close>

theorem single_item_cap_selects_self_pair:
  "2 \<le> length (load_items two_items)
   \<and> slice_to (load_items two_items) 1 = [''a'']
   \<and> generate_embeddings ones_provider [''a''] = Inr [[1]]
   \<and> masked_similarity [[1]] = Inr [[None]]
   \<and> argmax_cell [[1]] = Inr (0, 0)
   \<and> fst (most_similar_pair ones_provider ''in.txt'' 1 (world_of two_items)) = Inr (''a'', ''a'')
   \<and> fst (find_most_similar_texts ones_provider ''in.txt'' 1 (Some ''out.txt'') (world_of two_items))
     = Inr [\<lparr>output_saved_to_location = Some ''out.txt'', response = ''Task Done Successfully.''\<rparr>]
   \<and> files (snd (find_most_similar_texts ones_provider ''in.txt'' 1 (Some ''out.txt'')
        (world_of two_items))) ''out.txt''
     = Some (''a'' @ [LF] @ ''a'' @ [LF])"
proof -
  have s: "slice_to (load_items two_items) 1 = [''a'']"
    by (simp add: load_items_two_items slice_to_def)
  have g: "generate_embeddings ones_provider [''a''] = Inr [[1]]"
    by (simp add: generate_embeddings_def np_array_def ones_provider_def)
  have m: "masked_similarity [[1]] = Inr [[None]]"
    by (simp add: masked_similarity_def fill_diagonal_def similarity_def enumerate_eq_zip)
  show ?thesis
    by (simp add: two_items_enough s g m argmax_cell_one find_most_similar_texts_def
          most_similar_pair_two_items_cap_one)
qed

subsection \<open>Too few items\<close>

text \<open>
  Claim C3. When the input file holds fewer than two lines that are non-empty after
  stripping, the call raises the \<open>ValueError\<close> of the insufficient input, and the world
  is the one it started in: the provider has not been called and no file is written.
\<close>

theorem insufficient_input_raises_before_embedding:
  assumes "files w input_file = Some content" and "length (load_items content) < 2"
  shows "find_most_similar_texts embed_fn input_file max_items output_file w =
           (Inl (ValueError ''The input file must contain at least two items to compare.''), w)"
  using assms by (simp add: find_most_similar_texts_def most_similar_pair_too_few)

theorem insufficient_input_raises_before_embedding_witness:
  "files (world_of one_item) ''in.txt'' = Some one_item
   \<and> length (load_items one_item) < 2
   \<and> find_most_similar_texts ones_provider ''in.txt'' 1000 (Some ''out.txt'') (world_of one_item)
     = (Inl (ValueError ''The input file must contain at least two items to compare.''),
        world_of one_item)
   \<and> embed_calls (world_of one_item) = []
   \<and> files (world_of one_item) ''out.txt'' = None"
proof -
  have n: "length (load_items one_item) < 2" by (simp add: load_items_one_item)
  have o: "files (world_of one_item) ''out.txt'' = None" by (simp add: world_of_def)
  from insufficient_input_raises_before_embedding [OF files_world_of n]
  show ?thesis by (simp add: files_world_of n embed_calls_world_of o)
qed

subsection \<open>The cap\<close>

text \<open>
  Claim C4. For a cap \<open>max_items\<close> that is not negative and smaller than the number of
  items, the only batch sent to the provider is the list of the first \<open>max_items\<close> items
  in their order, and both items of the pair, as it is computed and as it is written,
  stand at positions below \<open>max_items\<close> of the list of all items.
\<close>

theorem truncation_keeps_first_max_items:
  assumes "files w input_file = Some content" and "0 \<le> max_items"
    and "max_items < int (length (load_items content))"
  shows "embed_calls (snd (find_most_similar_texts embed_fn input_file max_items output_file w))
           = embed_calls w @ (if length (load_items content) < 2 then []
                              else [take (nat max_items) (load_items content)])
       \<and> (\<forall>a b. fst (most_similar_pair embed_fn input_file max_items w) = Inr (a, b) \<longrightarrow>
             (\<exists>i j. i < nat max_items \<and> j < nat max_items
                \<and> a = load_items content ! i \<and> b = load_items content ! j))
       \<and> (\<forall>p r. output_file = Some p \<and> p \<noteq> []
              \<and> fst (find_most_similar_texts embed_fn input_file max_items output_file w) = Inr r \<longrightarrow>
             (\<exists>i j. i < nat max_items \<and> j < nat max_items
                \<and> files (snd (find_most_similar_texts embed_fn input_file max_items output_file w)) p
                    = Some (load_items content ! i @ [LF] @ load_items content ! j @ [LF])))"
proof -
  let ?items = "load_items content"
  from assms(2) have cut: "slice_to ?items max_items = take (nat max_items) ?items"
    by (rule slice_to_nonneg)
  from assms(2,3) have len: "length (slice_to ?items max_items) = nat max_items"
    unfolding cut by simp
  have calls: "embed_calls (snd (find_most_similar_texts embed_fn input_file max_items output_file w))
           = embed_calls w @ (if length ?items < 2 then [] else [take (nat max_items) ?items])"
    by (simp add: find_most_similar_texts_calls most_similar_pair_calls [OF assms(1)] cut)
  have pair: "\<exists>i j. i < nat max_items \<and> j < nat max_items \<and> a = ?items ! i \<and> b = ?items ! j"
    if "fst (most_similar_pair embed_fn input_file max_items w) = Inr (a, b)" for a b
    using most_similar_pair_items [OF assms(1) that] by (simp add: len)
  have written: "\<exists>i j. i < nat max_items \<and> j < nat max_items
        \<and> files (snd (find_most_similar_texts embed_fn input_file max_items output_file w)) p
            = Some (?items ! i @ [LF] @ ?items ! j @ [LF])"
    if "output_file = Some p" and "p \<noteq> []"
      and "fst (find_most_similar_texts embed_fn input_file max_items output_file w) = Inr r" for p r
  proof -
    from find_most_similar_texts_Inr [OF that(3)] that(1,2) obtain a b
      where ab: "fst (most_similar_pair embed_fn input_file max_items w) = Inr (a, b)"
        and f: "files (snd (find_most_similar_texts embed_fn input_file max_items output_file w)) p
                  = Some (a @ [LF] @ b @ [LF])"
      by blast
    from pair [OF ab] f show ?thesis by blast
  qed
  from calls pair written show ?thesis by blast
qed

theorem truncation_keeps_first_max_items_witness:
  "files (world_of four_items) ''in.txt'' = Some four_items
   \<and> (0::int) \<le> 2 \<and> 2 < int (length (load_items four_items))
   \<and> embed_calls (snd (find_most_similar_texts lookup_provider ''in.txt'' 2 (Some ''out.txt'')
        (world_of four_items))) = [[''a'', ''b'']]
   \<and> fst (most_similar_pair lookup_provider ''in.txt'' 2 (world_of four_items)) = Inr (''a'', ''b'')
   \<and> files (snd (find_most_similar_texts lookup_provider ''in.txt'' 2 (Some ''out.txt'')
        (world_of four_items))) ''out.txt'' = Some (''a'' @ [LF] @ ''b'' @ [LF])
   \<and> fst (most_similar_pair lookup_provider ''in.txt'' 1000 (world_of four_items))
       = Inr (''c'', ''d'')"
proof -
  have a: "(0::int) \<le> 2" by simp
  have b: "2 < int (length (load_items four_items))" by (simp add: load_items_four_items)
  from truncation_keeps_first_max_items [OF files_world_of a b, of lookup_provider "Some ''out.txt''"]
  have calls: "embed_calls (snd (find_most_similar_texts lookup_provider ''in.txt'' 2
        (Some ''out.txt'') (world_of four_items))) = [[''a'', ''b'']]"
    by (simp add: load_items_four_items embed_calls_world_of)
  have out: "files (snd (find_most_similar_texts lookup_provider ''in.txt'' 2 (Some ''out.txt'')
        (world_of four_items))) ''out.txt'' = Some (''a'' @ [LF] @ ''b'' @ [LF])"
    by (simp add: find_most_similar_texts_def most_similar_pair_four_items_cap_two)
  from files_world_of a b calls out most_similar_pair_four_items_no_cap show ?thesis
    by (simp add: most_similar_pair_four_items_cap_two)
qed

subsection \<open>Symmetry\<close>



subsection \<open>Ties\<close>




subsection \<open>Failure of the provider\<close>

text \<open>
  Claim C7. When the provider raises on the batch it is given, the call raises the
  \<open>ValueError\<close> that carries the provider's message; no pair is returned, and the only
  change to the world is the record of the call to the provider: no file is written.
\<close>

theorem provider_failure_propagates:
  assumes "files w input_file = Some content" and "2 \<le> length (load_items content)"
    and "embed_fn (slice_to (load_items content) max_items) = Inl msg"
  shows "find_most_similar_texts embed_fn input_file max_items output_file w =
           (Inl (ValueError (''Error while generating embeddings: '' @ msg)),
            w\<lparr>embed_calls := embed_calls w @ [slice_to (load_items content) max_items]\<rparr>)"
  using assms
  by (simp add: find_most_similar_texts_def most_similar_pair_enough generate_embeddings_def)

theorem provider_failure_propagates_witness:
  "files (world_of two_items) ''in.txt'' = Some two_items
   \<and> 2 \<le> length (load_items two_items)
   \<and> failing_provider (slice_to (load_items two_items) 1000) = Inl ''quota''
   \<and> find_most_similar_texts failing_provider ''in.txt'' 1000 (Some ''out.txt'') (world_of two_items)
     = (Inl (ValueError ''Error while generating embeddings: quota''),
        (world_of two_items)\<lparr>embed_calls := [[''a'', ''b'']]\<rparr>)
   \<and> files ((world_of two_items)\<lparr>embed_calls := [[''a'', ''b'']]\<rparr>) ''out.txt'' = None"
proof -
  have p: "failing_provider (slice_to (load_items two_items) 1000) = Inl ''quota''"
    by (simp add: failing_provider_def)
  have s: "slice_to (load_items two_items) 1000 = [''a'', ''b'']"
    by (simp add: load_items_two_items slice_to_def)
  from provider_failure_propagates [where embed_fn = failing_provider and max_items = 1000
      and msg = "''quota''" and output_file = "Some ''out.txt''",
      OF files_world_of two_items_enough p]
  show ?thesis
    by (simp add: files_world_of two_items_enough s embed_calls_world_of failing_provider_def
          world_of_def)
qed

subsection \<open>Determinism\<close>

text \<open>
  Claim C8. The provider is a function, and the outcome of a call depends on the world
  only through the contents of the input file: from two worlds that agree on that file,
  the returned value, the pair and the contents written to the output file are the same.
  For the items \<open>x\<close>, \<open>y\<close>, \<open>z\<close> with the vectors \<open>[1,0]\<close>, \<open>[1,0]\<close>, \<open>[0,1]\<close> the
  masked matrix is \<open>[[-inf,1,0],[1,-inf,0],[0,0,-inf]]\<close>, its maximum is found at cell
  \<open>(0, 1)\<close>, and the pair is \<open>(x, y)\<close>.
\<close>

theorem output_depends_on_input_only:
  assumes "files w1 input_file = files w2 input_file"
  shows "fst (find_most_similar_texts embed_fn input_file max_items output_file w1)
           = fst (find_most_similar_texts embed_fn input_file max_items output_file w2)
       \<and> fst (most_similar_pair embed_fn input_file max_items w1)
           = fst (most_similar_pair embed_fn input_file max_items w2)
       \<and> (\<forall>p r. output_file = Some p \<and> p \<noteq> []
              \<and> fst (find_most_similar_texts embed_fn input_file max_items output_file w1) = Inr r \<longrightarrow>
             files (snd (find_most_similar_texts embed_fn input_file max_items output_file w1)) p
               = files (snd (find_most_similar_texts embed_fn input_file max_items output_file w2)) p)
       \<and> (\<forall>content. files w1 input_file = Some content
              \<and> load_items content = [''x'', ''y'', ''z''] \<and> 3 \<le> max_items
              \<and> embed_fn [''x'', ''y'', ''z''] = Inr [[1, 0], [1, 0], [0, 1]] \<longrightarrow>
             masked_similarity [[1, 0], [1, 0], [0, 1]]
               = Inr [[None, Some 1, Some 0], [Some 1, None, Some 0], [Some 0, Some 0, None]]
             \<and> argmax_cell [[1, 0], [1, 0], [0, 1]] = Inr (0, 1)
             \<and> fst (most_similar_pair embed_fn input_file max_items w1) = Inr (''x'', ''y''))"
proof -
  let ?run1 = "find_most_similar_texts embed_fn input_file max_items output_file w1"
  let ?run2 = "find_most_similar_texts embed_fn input_file max_items output_file w2"
  have pair: "fst (most_similar_pair embed_fn input_file max_items w1)
           = fst (most_similar_pair embed_fn input_file max_items w2)"
    using assms by (rule most_similar_pair_reads_input_only)
  then have ret: "fst ?run1 = fst ?run2" by (simp add: find_most_similar_texts_fst)
  have written: "files (snd ?run1) p = files (snd ?run2) p"
    if "output_file = Some p" and "p \<noteq> []" and "fst ?run1 = Inr r" for p r
  proof -
    from find_most_similar_texts_Inr [OF that(3)] that(1,2) obtain a b
      where ab: "fst (most_similar_pair embed_fn input_file max_items w1) = Inr (a, b)"
        and f1: "files (snd ?run1) p = Some (a @ [LF] @ b @ [LF])"
      by blast
    from that(3) ret have "fst ?run2 = Inr r" by simp
    from find_most_similar_texts_Inr [OF this] that(1,2) obtain a' b'
      where ab': "fst (most_similar_pair embed_fn input_file max_items w2) = Inr (a', b')"
        and f2: "files (snd ?run2) p = Some (a' @ [LF] @ b' @ [LF])"
      by blast
    from ab ab' pair have "a' = a" and "b' = b" by simp_all
    with f1 f2 show ?thesis by simp
  qed
  have example: "fst (most_similar_pair embed_fn input_file max_items w1) = Inr (''x'', ''y'')"
    if "files w1 input_file = Some content" and "load_items content = [''x'', ''y'', ''z'']"
      and "3 \<le> max_items" and "embed_fn [''x'', ''y'', ''z''] = Inr [[1, 0], [1, 0], [0, 1]]"
    for content
  proof -
    from that(2) have n: "2 \<le> length (load_items content)" by simp
    from that(2,3) have s: "slice_to (load_items content) max_items = [''x'', ''y'', ''z'']"
      by (simp add: slice_to_def)
    from that(4) have g: "generate_embeddings embed_fn [''x'', ''y'', ''z'']
        = Inr [[1, 0], [1, 0], [0, 1]]"
      by (simp add: generate_embeddings_def np_array_def)
    have sp: "select_pair [''x'', ''y'', ''z''] [[1, 0], [1, 0], [0, 1]] = Inr (''x'', ''y'')"
      by (simp add: select_pair_def argmax_cell_xyz)
    show ?thesis by (simp add: most_similar_pair_enough [OF that(1) n] s g sp)
  qed
  from ret pair written example masked_similarity_xyz argmax_cell_xyz show ?thesis by blast
qed

theorem output_depends_on_input_only_witness:
  "files (world_of xyz_items) ''in.txt'' = files ((world_of xyz_items)\<lparr>embed_calls := [[''earlier'']]\<rparr>) ''in.txt''
   \<and> files (world_of xyz_items) ''in.txt'' = Some xyz_items
   \<and> load_items xyz_items = [''x'', ''y'', ''z''] \<and> (3::int) \<le> 1000
   \<and> xyz_provider [''x'', ''y'', ''z''] = Inr [[1, 0], [1, 0], [0, 1]]
   \<and> fst (most_similar_pair xyz_provider ''in.txt'' 1000 (world_of xyz_items)) = Inr (''x'', ''y'')
   \<and> fst (most_similar_pair xyz_provider ''in.txt'' 1000
        ((world_of xyz_items)\<lparr>embed_calls := [[''earlier'']]\<rparr>)) = Inr (''x'', ''y'')
   \<and> fst (find_most_similar_texts xyz_provider ''in.txt'' 1000 (Some ''out.txt'')
        ((world_of xyz_items)\<lparr>embed_calls := [[''earlier'']]\<rparr>))
       = Inr [\<lparr>output_saved_to_location = Some ''out.txt'', response = ''Task Done Successfully.''\<rparr>]
   \<and> files (snd (find_most_similar_texts xyz_provider ''in.txt'' 1000 (Some ''out.txt'')
        ((world_of xyz_items)\<lparr>embed_calls := [[''earlier'']]\<rparr>))) ''out.txt''
       = Some (''x'' @ [LF] @ ''y'' @ [LF])"
proof -
  let ?w1 = "world_of xyz_items"
  let ?w2 = "(world_of xyz_items)\<lparr>embed_calls := [[''earlier'']]\<rparr>"
  have same: "files ?w1 ''in.txt'' = files ?w2 ''in.txt''" by simp
  have p: "xyz_provider [''x'', ''y'', ''z''] = Inr [[1, 0], [1, 0], [0, 1]]"
    by (simp add: xyz_provider_def)
  have m: "(3::int) \<le> 1000" by simp
  note det = output_depends_on_input_only [OF same, of xyz_provider 1000 "Some ''out.txt''"]
  from det files_world_of load_items_xyz_items m p
  have pair1: "fst (most_similar_pair xyz_provider ''in.txt'' 1000 ?w1) = Inr (''x'', ''y'')"
    by blast
  with det have pair2: "fst (most_similar_pair xyz_provider ''in.txt'' 1000 ?w2) = Inr (''x'', ''y'')"
    by simp
  have ret1: "fst (find_most_similar_texts xyz_provider ''in.txt'' 1000 (Some ''out.txt'') ?w1)
       = Inr [\<lparr>output_saved_to_location = Some ''out.txt'', response = ''Task Done Successfully.''\<rparr>]"
    by (simp add: find_most_similar_texts_fst pair1)
  with det have ret2: "fst (find_most_similar_texts xyz_provider ''in.txt'' 1000 (Some ''out.txt'') ?w2)
       = Inr [\<lparr>output_saved_to_location = Some ''out.txt'', response = ''Task Done Successfully.''\<rparr>]"
    by simp
  from find_most_similar_texts_Inr [OF ret1] pair1
  have out1: "files (snd (find_most_similar_texts xyz_provider ''in.txt'' 1000 (Some ''out.txt'') ?w1))
      ''out.txt'' = Some (''x'' @ [LF] @ ''y'' @ [LF])"
    by auto
  from det ret1 have "files (snd (find_most_similar_texts xyz_provider ''in.txt'' 1000 (Some ''out.txt'') ?w1)) ''out.txt''
      = files (snd (find_most_similar_texts xyz_provider ''in.txt'' 1000 (Some ''out.txt'') ?w2)) ''out.txt''"
    by blast
  with out1 have out2: "files (snd (find_most_similar_texts xyz_provider ''in.txt'' 1000 (Some ''out.txt'') ?w2))
      ''out.txt'' = Some (''x'' @ [LF] @ ''y'' @ [LF])"
    by simp
  from same files_world_of load_items_xyz_items m p pair1 pair2 ret2 out2 show ?thesis
    by blast
qed

subsection \<open>Stripped items\<close>

text \<open>
  Claim C9. The items are the lines of the file with leading and trailing white space
  removed, without those that are empty after the removal: no item is empty or starts
  or ends with white space. Every batch sent to the provider, both items of the pair and
  the two lines written to the output file are such items, so the output need not
  repeat the raw lines of the file.
\<close>

theorem items_are_stripped_lines:
  assumes "files w input_file = Some content"
  shows "load_items content =
           filter (\<lambda>x. x \<noteq> []) (map strip (file_lines (universal_newlines content)))
       \<and> (\<forall>x \<in> set (load_items content). x \<noteq> [] \<and> \<not> isspace (hd x) \<and> \<not> isspace (last x))
       \<and> (\<forall>batch \<in> set (drop (length (embed_calls w))
              (embed_calls (snd (find_most_similar_texts embed_fn input_file max_items output_file w)))).
             set batch \<subseteq> set (load_items content))
       \<and> (\<forall>a b. fst (most_similar_pair embed_fn input_file max_items w) = Inr (a, b) \<longrightarrow>
             a \<in> set (load_items content) \<and> b \<in> set (load_items content))
       \<and> (\<forall>p r. output_file = Some p \<and> p \<noteq> []
              \<and> fst (find_most_similar_texts embed_fn input_file max_items output_file w) = Inr r \<longrightarrow>
             (\<exists>a \<in> set (load_items content). \<exists>b \<in> set (load_items content).
                files (snd (find_most_similar_texts embed_fn input_file max_items output_file w)) p
                  = Some (a @ [LF] @ b @ [LF])))"
proof -
  let ?items = "load_items content"
  let ?run = "find_most_similar_texts embed_fn input_file max_items output_file w"
  have stripped: "\<forall>x \<in> set ?items. x \<noteq> [] \<and> \<not> isspace (hd x) \<and> \<not> isspace (last x)"
    using load_items_stripped by blast
  have batches: "\<forall>batch \<in> set (drop (length (embed_calls w)) (embed_calls (snd ?run))).
      set batch \<subseteq> set ?items"
    by (simp add: find_most_similar_texts_calls most_similar_pair_calls [OF assms] set_slice_to)
  have pair: "a \<in> set ?items \<and> b \<in> set ?items"
    if "fst (most_similar_pair embed_fn input_file max_items w) = Inr (a, b)" for a b
  proof -
    from most_similar_pair_items [OF assms that] obtain i j
      where i: "i < length (slice_to ?items max_items)"
        and j: "j < length (slice_to ?items max_items)"
        and ab: "a = ?items ! i" "b = ?items ! j" by blast
    obtain n where "slice_to ?items max_items = take n ?items"
      using slice_to_prefix by blast
    with i j have "i < length ?items" and "j < length ?items" by simp_all
    with ab show ?thesis by simp
  qed
  have written: "\<exists>a \<in> set ?items. \<exists>b \<in> set ?items.
      files (snd ?run) p = Some (a @ [LF] @ b @ [LF])"
    if "output_file = Some p" and "p \<noteq> []" and "fst ?run = Inr r" for p r
  proof -
    from find_most_similar_texts_Inr [OF that(3)] that(1,2) obtain a b
      where ab: "fst (most_similar_pair embed_fn input_file max_items w) = Inr (a, b)"
        and f: "files (snd ?run) p = Some (a @ [LF] @ b @ [LF])"
      by blast
    from pair [OF ab] f show ?thesis by blast
  qed
  from load_items_filter_map stripped batches pair written show ?thesis by blast
qed

theorem items_are_stripped_lines_witness:
  "files (world_of padded_items) ''in.txt'' = Some padded_items
   \<and> file_lines (universal_newlines padded_items)
       = [''  a '' @ [LF], [CHR 0x09, LF], '' b'' @ [CHR 0x09]]
   \<and> load_items padded_items = [''a'', ''b'']
   \<and> load_items padded_items =
       filter (\<lambda>x. x \<noteq> []) (map strip (file_lines (universal_newlines padded_items)))
   \<and> fst (most_similar_pair ones_provider ''in.txt'' 1000 (world_of padded_items)) = Inr (''a'', ''b'')
   \<and> ''a'' \<in> set (load_items padded_items) \<and> ''b'' \<in> set (load_items padded_items)
   \<and> files (snd (find_most_similar_texts ones_provider ''in.txt'' 1000 (Some ''out.txt'')
        (world_of padded_items))) ''out.txt'' = Some (''a'' @ [LF] @ ''b'' @ [LF])"
proof -
  note items = items_are_stripped_lines [OF files_world_of, of padded_items ones_provider 1000 "Some ''out.txt''"]
  have pair: "fst (most_similar_pair ones_provider ''in.txt'' 1000 (world_of padded_items))
      = Inr (''a'', ''b'')"
    by (simp add: most_similar_pair_padded_items)
  from items have form: "load_items padded_items =
       filter (\<lambda>x. x \<noteq> []) (map strip (file_lines (universal_newlines padded_items)))"
    by blast
  from items pair have mem: "''a'' \<in> set (load_items padded_items) \<and> ''b'' \<in> set (load_items padded_items)"
    by blast
  have out: "files (snd (find_most_similar_texts ones_provider ''in.txt'' 1000 (Some ''out.txt'')
        (world_of padded_items))) ''out.txt'' = Some (''a'' @ [LF] @ ''b'' @ [LF])"
    by (simp add: find_most_similar_texts_def most_similar_pair_padded_items)
  from files_world_of file_lines_padded_items load_items_padded_items form pair mem out
  show ?thesis by blast
qed

subsection \<open>The length check comes first\<close>

text \<open>
  Claim C10. The length check reads the list before it is cut to \<open>max_items\<close>: for a
  file with two items or more and \<open>max_items = 1\<close> the call does not raise the
  \<open>ValueError\<close> of the insufficient input, and the provider is called once, on the batch
  that holds the first item alone.
\<close>

theorem length_check_precedes_truncation:
  assumes "files w input_file = Some content" and "2 \<le> length (load_items content)"
  shows "fst (find_most_similar_texts embed_fn input_file 1 output_file w)
           \<noteq> Inl (ValueError ''The input file must contain at least two items to compare.'')
       \<and> embed_calls (snd (find_most_similar_texts embed_fn input_file 1 output_file w))
           = embed_calls w @ [[hd (load_items content)]]"
proof -
  from assms(2) have ne: "load_items content \<noteq> []" by auto
  have calls: "embed_calls (snd (most_similar_pair embed_fn input_file 1 w))
                 = embed_calls w @ [[hd (load_items content)]]"
    by (simp add: most_similar_pair_enough [OF assms] slice_to_one [OF ne])
  have "fst (most_similar_pair embed_fn input_file 1 w)
          \<noteq> Inl (ValueError ''The input file must contain at least two items to compare.'')"
  proof
    assume a: "fst (most_similar_pair embed_fn input_file 1 w)
          = Inl (ValueError ''The input file must contain at least two items to compare.'')"
    show False
    proof (cases "generate_embeddings embed_fn (slice_to (load_items content) 1)")
      case (Inl e)
      then obtain m where "e = ValueError (''Error while generating embeddings: '' @ m)"
        by (auto simp: generate_embeddings_def split: sum.splits)
      with a Inl show False by (simp add: most_similar_pair_enough [OF assms])
    next
      case (Inr E)
      with a have "select_pair (slice_to (load_items content) 1) E
          = Inl (ValueError ''The input file must contain at least two items to compare.'')"
        by (simp add: most_similar_pair_enough [OF assms])
      from select_pair_error [OF this] show False by simp
    qed
  qed
  then show ?thesis
    by (simp add: find_most_similar_texts_calls calls find_most_similar_texts_error)
qed

theorem length_check_precedes_truncation_witness:
  "files (world_of two_items) ''in.txt'' = Some two_items
   \<and> 2 \<le> length (load_items two_items)
   \<and> fst (find_most_similar_texts ones_provider ''in.txt'' 1 None (world_of two_items))
       \<noteq> Inl (ValueError ''The input file must contain at least two items to compare.'')
   \<and> embed_calls (snd (find_most_similar_texts ones_provider ''in.txt'' 1 None (world_of two_items)))
       = [[''a'']]"
proof -
  from length_check_precedes_truncation [OF files_world_of two_items_enough,
      of ones_provider None]
  show ?thesis
    by (simp add: files_world_of two_items_enough load_items_two_items embed_calls_world_of)
qed

end
